theory Spec2Isabelle
  imports Main "HOL-Library.Word"
begin

unbundle bit_operations_syntax

section \<open>Characters and the C library\<close>

text \<open>
  A C \<open>char\<close> is an Isabelle \<open>char\<close> (one byte). The three characters the dialog
  singles out besides the digits and \<open>d\<close>: ESCAPE (\<open>'\033'\<close>), RETURN (\<open>'\n'\<close>)
  and the string terminator.
\<close>

definition ESC :: char where
  "ESC = CHR 0x1B"

definition NL :: char where
  "NL = CHR 0x0A"

definition NUL :: char where
  "NUL = CHR 0x00"

text \<open>\<open>isdigit\<close> of \<open><ctype.h>\<close> in the C locale: the bytes \<open>'0'\<close> .. \<open>'9'\<close>.\<close>

definition isdigit :: "char \<Rightarrow> bool" where
  "isdigit c = (48 \<le> (of_char c :: nat) \<and> (of_char c :: nat) \<le> 57)"

text \<open>\<open>isspace\<close> in the C locale: space, and the bytes 9 .. 13.\<close>

definition isspace :: "char \<Rightarrow> bool" where
  "isspace c = ((of_char c :: nat) = 32 \<or> (9 \<le> (of_char c :: nat) \<and> (of_char c :: nat) \<le> 13))"

definition digit_val :: "char \<Rightarrow> int" where
  "digit_val c = int (of_char c) - 48"

text \<open>
  \<open>atoi\<close> is the C library's, not the repository's. ISO C defines it as
  \<open>(int) strtol(s, NULL, 10)\<close> and leaves a value that does not fit undefined; the model
  is glibc's on an LP64 platform: \<open>strtol\<close> saturates at the bounds of a 64-bit
  \<open>long\<close> and the conversion to \<open>int\<close> keeps the low 32 bits. The argument is the
  array the pointer addresses; the string is what stands before its first \<open>NUL\<close>.
\<close>

fun strtol_digits :: "int \<Rightarrow> char list \<Rightarrow> int" where
  "strtol_digits acc [] = acc"
| "strtol_digits acc (c # cs) =
     (if isdigit c then strtol_digits (acc * 10 + digit_val c) cs else acc)"

definition strtol :: "char list \<Rightarrow> int" where
  "strtol s =
     (case dropWhile isspace s of
        [] \<Rightarrow> 0
      | c # cs \<Rightarrow>
          if c = CHR ''-'' then max (- (2 ^ 63)) (- strtol_digits 0 cs)
          else if c = CHR ''+'' then min (2 ^ 63 - 1) (strtol_digits 0 cs)
          else min (2 ^ 63 - 1) (strtol_digits 0 (c # cs)))"

definition atoi :: "char list \<Rightarrow> 32 word" where
  "atoi buf = word_of_int (strtol (takeWhile (\<lambda>c. c \<noteq> NUL) buf))"

section \<open>The terminal\<close>

text \<open>
  \<open>struct termios\<close> with its flag words (\<open>tcflag_t\<close> is an unsigned 32-bit integer)
  and control characters. The terminal holds its current attributes; \<open>set_calls\<close> logs
  every \<open>tcsetattr\<close>, in order. Standard input is taken to be a terminal, so both calls
  succeed (the code ignores their return values).
\<close>

record termios =
  c_iflag :: "32 word"
  c_oflag :: "32 word"
  c_cflag :: "32 word"
  c_lflag :: "32 word"
  c_cc :: "8 word list"

record terminal =
  attrs :: termios
  set_calls :: "termios list"

definition tcgetattr :: "terminal \<Rightarrow> termios" where
  "tcgetattr t = attrs t"

definition tcsetattr :: "termios \<Rightarrow> terminal \<Rightarrow> terminal" where
  "tcsetattr tio t = t\<lparr>attrs := tio, set_calls := set_calls t @ [tio]\<rparr>"

text \<open>The bits of \<open>c_lflag\<close> the mask clears, with their Linux values.\<close>

definition ISIG :: "32 word" where
  "ISIG = 1"

definition ICANON :: "32 word" where
  "ICANON = 2"

definition ECHO :: "32 word" where
  "ECHO = 8"

definition NEW_TERM_ATTRIBS_MASK :: "32 word" where
  "NEW_TERM_ATTRIBS_MASK = (NOT ICANON AND NOT ECHO AND NOT ISIG)"

section \<open>The dialog\<close>

definition INPUT_BUFFER_MAX_LEN :: nat where
  "INPUT_BUFFER_MAX_LEN = 11"

text \<open>
  The locals of \<open>show_int_input_dialog\<close> that the loop reads and writes, and the number
  of bell characters written so far. \<open>n_input_chars\<close> is an \<open>int32_t\<close> that starts at 0,
  is decremented only when it is not 0 and incremented only below 11: a \<open>nat\<close>. Of the
  terminal output only the bell is recorded; the cursor movements and the redrawn line
  change no variable of the function.
\<close>

record dialog_state =
  ret_val :: int
  input_buffer :: "char list"
  n_input_chars :: nat
  alerts :: nat

definition make_alert_sound :: "dialog_state \<Rightarrow> dialog_state" where
  "make_alert_sound s = s\<lparr>alerts := alerts s + 1\<rparr>"

datatype control = Continue | Break

text \<open>The \<open>if (c == '\n')\<close> block of the loop.\<close>

definition return_key :: "char \<Rightarrow> dialog_state \<Rightarrow> control \<times> dialog_state" where
  "return_key c s =
     (if c = NL then
        (if n_input_chars s = 0 then (Continue, make_alert_sound s) else (Break, s))
      else (Continue, s))"

text \<open>
  The \<open>if (!isdigit(c)) ... else ...\<close> block. The store \<open>input_buffer[n_input_chars++] = c\<close>
  is guarded by \<open>n_input_chars < INPUT_BUFFER_MAX_LEN\<close>, the size of the array, so it is
  always inside the array.
\<close>

definition edit_key :: "char \<Rightarrow> dialog_state \<Rightarrow> dialog_state" where
  "edit_key c s =
     (if \<not> isdigit c then
        (if CHR ''d'' = c then
           (if n_input_chars s \<noteq> 0 then s\<lparr>n_input_chars := n_input_chars s - 1\<rparr>
            else make_alert_sound s)
         else make_alert_sound s)
      else
        (if n_input_chars s < INPUT_BUFFER_MAX_LEN then
           s\<lparr>input_buffer := (input_buffer s)[n_input_chars s := c],
             n_input_chars := n_input_chars s + 1\<rparr>
         else make_alert_sound s))"

text \<open>One iteration of \<open>while (1)\<close> on the character \<open>getchar\<close> returned.\<close>

definition loop_body :: "char \<Rightarrow> dialog_state \<Rightarrow> control \<times> dialog_state" where
  "loop_body c s =
     (if c = ESC then (Break, s\<lparr>ret_val := 0\<rparr>)
      else
        (case return_key c s of
           (Break, s') \<Rightarrow> (Break, s')
         | (Continue, s') \<Rightarrow> (Continue, edit_key c s')))"

text \<open>
  The loop on the characters typed. It stops at the first \<open>break\<close> and leaves the rest
  unread; \<open>Continue\<close> is the loop still waiting in \<open>getchar\<close> when the characters typed
  so far are used up. (At the end of a closed input \<open>getchar\<close> returns \<open>EOF\<close> for ever,
  the byte 255 once stored in \<open>c\<close>: one more illegal character, and the loop does not
  leave either.)
\<close>

fun run :: "dialog_state \<Rightarrow> char list \<Rightarrow> control \<times> dialog_state" where
  "run s [] = (Continue, s)"
| "run s (c # cs) =
     (case loop_body c s of
        (Break, s') \<Rightarrow> (Break, s')
      | (Continue, s') \<Rightarrow> run s' cs)"

definition init_state :: dialog_state where
  "init_state =
     \<lparr>ret_val = 1, input_buffer = replicate INPUT_BUFFER_MAX_LEN NUL,
      n_input_chars = 0, alerts = 0\<rparr>"

text \<open>
  What the function hands back: \<open>ret_val\<close> and the value stored through \<open>input_ptr\<close>,
  or the fault of a store outside \<open>input_buffer\<close> (\<open>int32_t\<close> is a 32-bit word, read with \<open>sint\<close>); with them the terminal as the
  function leaves it and the bells it rang.
\<close>

datatype fault = OutOfBounds

record dialog_exit =
  result :: "fault + (int \<times> 32 word)"
  term_after :: terminal
  bells :: nat

text \<open>
  \<open>input_buffer[n_input_chars] = 0; *input_ptr = atoi(input_buffer);\<close> The store is
  inside the array only for an index below its size.
\<close>

definition convert_input :: "dialog_state \<Rightarrow> fault + 32 word" where
  "convert_input s =
     (if n_input_chars s < length (input_buffer s)
      then Inr (atoi ((input_buffer s)[n_input_chars s := NUL]))
      else Inl OutOfBounds)"

text \<open>The code after the loop: restore the terminal, then produce the result.\<close>

definition after_loop :: "termios \<Rightarrow> terminal \<Rightarrow> dialog_state \<Rightarrow> dialog_exit" where
  "after_loop old_tio t s =
     (let t' = tcsetattr old_tio t in
      if ret_val s \<noteq> 0 then
        (case convert_input s of
           Inl f \<Rightarrow> \<lparr>result = Inl f, term_after = t', bells = alerts s\<rparr>
         | Inr v \<Rightarrow> \<lparr>result = Inr (ret_val s, v), term_after = t', bells = alerts s\<rparr>)
      else \<lparr>result = Inr (ret_val s, 0), term_after = t', bells = alerts s\<rparr>)"

text \<open>
  The whole function on a terminal and the characters typed: \<open>None\<close> when the loop never
  leaves (no ESCAPE and no accepted RETURN among them).
\<close>

definition show_int_input_dialog :: "terminal \<Rightarrow> char list \<Rightarrow> dialog_exit option" where
  "show_int_input_dialog t typed =
     (let old_tio = tcgetattr t;
          new_tio = old_tio\<lparr>c_lflag := c_lflag old_tio AND NEW_TERM_ATTRIBS_MASK\<rparr>;
          t1 = tcsetattr new_tio t
      in case run init_state typed of
           (Continue, s) \<Rightarrow> None
         | (Break, s) \<Rightarrow> Some (after_loop old_tio t1 s))"

section \<open>Observations used in the statements\<close>

text \<open>The digits the dialog holds: the first \<open>n_input_chars\<close> bytes of the array.\<close>

definition buffer_digits :: "dialog_state \<Rightarrow> char list" where
  "buffer_digits s = take (n_input_chars s) (input_buffer s)"

text \<open>
  What every state of the loop satisfies: the array has its 11 bytes, the count does not
  exceed them, and the bytes counted are digits.
\<close>

definition buffer_ok :: "dialog_state \<Rightarrow> bool" where
  "buffer_ok s =
     (length (input_buffer s) = INPUT_BUFFER_MAX_LEN \<and>
      n_input_chars s \<le> INPUT_BUFFER_MAX_LEN \<and>
      list_all isdigit (buffer_digits s))"

text \<open>
  The positional decimal value of a digit string, most significant digit first. This is
  the specification's side of the conversion, not the code's.
\<close>

fun decimal_value :: "char list \<Rightarrow> int" where
  "decimal_value [] = 0"
| "decimal_value (c # cs) = digit_val c * 10 ^ length cs + decimal_value cs"

text \<open>A terminal in its usual cooked mode, for the concrete runs below.\<close>

definition tty :: terminal where
  "tty = \<lparr>attrs = \<lparr>c_iflag = 0x500, c_oflag = 5, c_cflag = 0xBF, c_lflag = 0x8A3B,
                     c_cc = [3, 28, 127, 21, 4]\<rparr>,
          set_calls = []\<rparr>"

section \<open>One iteration, by the class of the character\<close>

lemmas key_defs = loop_body_def return_key_def edit_key_def make_alert_sound_def

lemma of_char_specials:
  "of_char ESC = (27::nat)" "of_char NL = (10::nat)" "of_char NUL = (0::nat)" "of_char (CHR ''d'') = (100::nat)"
  by (simp_all add: ESC_def NL_def NUL_def)

lemma isdigit_not_special:
  assumes "isdigit c"
  shows "c \<noteq> ESC" and "c \<noteq> NL" and "c \<noteq> NUL" and "c \<noteq> CHR ''d''" and "CHR ''d'' \<noteq> c"
  using assms of_char_specials by (auto simp: isdigit_def)

lemma specials_distinct:
  "NL \<noteq> ESC" "CHR ''d'' \<noteq> ESC" "CHR ''d'' \<noteq> NL" "\<not> isdigit NL" "\<not> isdigit (CHR ''d'')" "\<not> isdigit ESC" "\<not> isdigit NUL"
  by (simp_all add: ESC_def NL_def NUL_def isdigit_def)

lemma loop_body_ESC: "loop_body ESC s = (Break, s\<lparr>ret_val := 0\<rparr>)"
  by (simp add: loop_body_def)

lemma loop_body_NL_empty:
  "n_input_chars s = 0 \<Longrightarrow> loop_body NL s = (Continue, s\<lparr>alerts := alerts s + 2\<rparr>)"
  by (simp add: key_defs specials_distinct)

lemma loop_body_NL_nonempty:
  "n_input_chars s \<noteq> 0 \<Longrightarrow> loop_body NL s = (Break, s)"
  by (simp add: key_defs specials_distinct)

lemma loop_body_d_empty:
  "n_input_chars s = 0 \<Longrightarrow> loop_body (CHR ''d'') s = (Continue, s\<lparr>alerts := alerts s + 1\<rparr>)"
  by (simp add: key_defs specials_distinct)

lemma loop_body_d_nonempty:
  "n_input_chars s \<noteq> 0 \<Longrightarrow>
   loop_body (CHR ''d'') s = (Continue, s\<lparr>n_input_chars := n_input_chars s - 1\<rparr>)"
  by (simp add: key_defs specials_distinct)

lemma loop_body_digit:
  "isdigit c \<Longrightarrow>
   loop_body c s =
     (Continue,
      if n_input_chars s < INPUT_BUFFER_MAX_LEN
      then s\<lparr>input_buffer := (input_buffer s)[n_input_chars s := c],
             n_input_chars := n_input_chars s + 1\<rparr>
      else s\<lparr>alerts := alerts s + 1\<rparr>)"
  by (simp add: key_defs isdigit_not_special)

lemma loop_body_other:
  "\<not> isdigit c \<Longrightarrow> c \<noteq> CHR ''d'' \<Longrightarrow> c \<noteq> ESC \<Longrightarrow> c \<noteq> NL \<Longrightarrow>
   loop_body c s = (Continue, s\<lparr>alerts := alerts s + 1\<rparr>)"
  by (auto simp add: key_defs)

lemma run_append:
  "run s (xs @ ys) = (case run s xs of (Break, s') \<Rightarrow> (Break, s') | (Continue, s') \<Rightarrow> run s' ys)"
  by (induction xs arbitrary: s) (auto split: prod.splits control.splits)

section \<open>Invariants of the loop\<close>

lemma buffer_ok_init: "buffer_ok init_state"
  by (simp add: buffer_ok_def buffer_digits_def init_state_def)

lemma take_Suc_update:
  "n < length xs \<Longrightarrow> take (Suc n) (xs[n := c]) = take n xs @ [c]"
  by (simp add: take_Suc_conv_app_nth)

lemma buffer_ok_loop_body:
  assumes "buffer_ok s"
  shows "buffer_ok (snd (loop_body c s))"
proof -
  consider (esc) "c = ESC" | (nl) "c = NL" | (del) "c = CHR ''d''" | (dig) "isdigit c"
    | (other) "\<not> isdigit c" "c \<noteq> CHR ''d''" "c \<noteq> ESC" "c \<noteq> NL"
    by blast
  then show ?thesis
  proof cases
    case esc
    with assms show ?thesis
      by (simp add: loop_body_ESC buffer_ok_def buffer_digits_def)
  next
    case nl
    with assms show ?thesis
      by (cases "n_input_chars s = 0")
         (simp_all add: loop_body_NL_empty loop_body_NL_nonempty buffer_ok_def buffer_digits_def)
  next
    case del
    show ?thesis
    proof (cases "n_input_chars s = 0")
      case True
      with assms del show ?thesis
        by (simp add: loop_body_d_empty buffer_ok_def buffer_digits_def)
    next
      case False
      then have "take (n_input_chars s - 1) (input_buffer s) = butlast (buffer_digits s)"
        using assms by (simp add: buffer_ok_def buffer_digits_def butlast_take)
      moreover have "list_all isdigit (butlast (buffer_digits s))"
        using assms by (auto simp: buffer_ok_def list_all_iff dest: in_set_butlastD)
      ultimately show ?thesis
        using assms del False
        by (auto simp: loop_body_d_nonempty buffer_ok_def buffer_digits_def)
    qed
  next
    case dig
    with assms show ?thesis
      by (auto simp: loop_body_digit buffer_ok_def buffer_digits_def take_Suc_update)
  next
    case other
    with assms show ?thesis
      by (simp add: loop_body_other buffer_ok_def buffer_digits_def)
  qed
qed

lemma buffer_ok_run: "buffer_ok s \<Longrightarrow> buffer_ok (snd (run s cs))"
proof (induction cs arbitrary: s)
  case Nil
  then show ?case by simp
next
  case (Cons c cs)
  from Cons.prems have ok: "buffer_ok (snd (loop_body c s))"
    by (rule buffer_ok_loop_body)
  show ?case
  proof (cases "loop_body c s")
    case (Pair k s')
    with ok Cons.IH [of s'] show ?thesis
      by (cases k) simp_all
  qed
qed

lemma loop_body_ret_val:
  "loop_body c s = (Continue, s') \<Longrightarrow> ret_val s' = ret_val s"
  by (auto simp: key_defs split: if_splits)

lemma run_ret_val: "run s cs = (Continue, s') \<Longrightarrow> ret_val s' = ret_val s"
proof (induction cs arbitrary: s)
  case Nil
  then show ?case by simp
next
  case (Cons c cs)
  then show ?case
    by (auto split: prod.splits control.splits dest: loop_body_ret_val)
qed

lemma run_digits:
  assumes "list_all isdigit ds"
    and "n_input_chars s + length ds \<le> INPUT_BUFFER_MAX_LEN"
    and "length (input_buffer s) = INPUT_BUFFER_MAX_LEN"
  shows "run s ds =
     (Continue,
      s\<lparr>input_buffer :=
          take (n_input_chars s) (input_buffer s) @ ds @
          drop (n_input_chars s + length ds) (input_buffer s),
        n_input_chars := n_input_chars s + length ds\<rparr>)"
  using assms
proof (induction ds arbitrary: s)
  case Nil
  then show ?case by simp
next
  case (Cons c ds)
  let ?s' = "s\<lparr>input_buffer := (input_buffer s)[n_input_chars s := c],
               n_input_chars := n_input_chars s + 1\<rparr>"
  from Cons.prems have lt: "n_input_chars s < INPUT_BUFFER_MAX_LEN" and dig: "isdigit c"
    by simp_all
  then have step: "loop_body c s = (Continue, ?s')"
    by (simp add: loop_body_digit)
  have "run ?s' ds =
     (Continue,
      ?s'\<lparr>input_buffer :=
          take (n_input_chars ?s') (input_buffer ?s') @ ds @
          drop (n_input_chars ?s' + length ds) (input_buffer ?s'),
        n_input_chars := n_input_chars ?s' + length ds\<rparr>)"
    using Cons.prems by (intro Cons.IH) simp_all
  with step lt Cons.prems(3) show ?case
    by (simp add: take_Suc_update)
qed











lemma run_init_digits:
  assumes "list_all isdigit ds" and "length ds \<le> INPUT_BUFFER_MAX_LEN"
  shows "run init_state ds =
     (Continue,
      \<lparr>ret_val = 1, input_buffer = ds @ replicate (INPUT_BUFFER_MAX_LEN - length ds) NUL,
       n_input_chars = length ds, alerts = 0\<rparr>)"
  using run_digits [of ds init_state] assms by (simp add: init_state_def)

lemma isdigit_chars:
  "isdigit (CHR ''0'')" "isdigit (CHR ''1'')" "isdigit (CHR ''2'')" "isdigit (CHR ''3'')"
  "isdigit (CHR ''4'')" "isdigit (CHR ''5'')" "isdigit (CHR ''6'')" "isdigit (CHR ''7'')"
  "isdigit (CHR ''8'')" "isdigit (CHR ''9'')"
  by (simp_all add: isdigit_def)

section \<open>The function from the loop\<close>

lemma run_snoc_ESC:
  "run init_state pre = (Continue, s) \<Longrightarrow>
   run init_state (pre @ ESC # rest) = (Break, s\<lparr>ret_val := 0\<rparr>)"
  by (simp add: run_append loop_body_ESC)

lemma dialog_of_run_Break:
  "run init_state typed = (Break, s) \<Longrightarrow>
   show_int_input_dialog t typed =
     Some (after_loop (tcgetattr t)
       (tcsetattr ((tcgetattr t)\<lparr>c_lflag := c_lflag (tcgetattr t) AND NEW_TERM_ATTRIBS_MASK\<rparr>) t) s)"
  by (simp add: show_int_input_dialog_def Let_def)

lemma dialog_of_run_Continue:
  "run init_state typed = (Continue, s) \<Longrightarrow> show_int_input_dialog t typed = None"
  by (simp add: show_int_input_dialog_def)

lemma after_loop_confirmed:
  assumes "ret_val s \<noteq> 0" and "convert_input s = Inr v"
  shows "result (after_loop old_tio t s) = Inr (ret_val s, v)"
    and "bells (after_loop old_tio t s) = alerts s"
  using assms by (simp_all add: after_loop_def Let_def)

lemma after_loop_fault:
  assumes "ret_val s \<noteq> 0" and "convert_input s = Inl f"
  shows "result (after_loop old_tio t s) = Inl f"
    and "bells (after_loop old_tio t s) = alerts s"
  using assms by (simp_all add: after_loop_def Let_def)

lemma loop_body_alert_only_when_unchanged:
  assumes "alerts (snd (loop_body c s)) \<noteq> alerts s"
  shows "fst (loop_body c s) = Continue \<and>
         input_buffer (snd (loop_body c s)) = input_buffer s \<and>
         n_input_chars (snd (loop_body c s)) = n_input_chars s"
  using assms by (auto simp: key_defs specials_distinct split: if_splits)

section \<open>Eleven digits\<close>

lemma run_eleven_digits:
  "run init_state ''12345678901'' =
     (Continue, \<lparr>ret_val = 1, input_buffer = ''12345678901'', n_input_chars = 11, alerts = 0\<rparr>)"
  using run_init_digits [of "''12345678901''"]
  by (simp del: run.simps add: isdigit_chars INPUT_BUFFER_MAX_LEN_def)

lemma run_ten_digits:
  "run init_state ''1234567890'' =
     (Continue,
      \<lparr>ret_val = 1, input_buffer = ''1234567890'' @ [NUL], n_input_chars = 10, alerts = 0\<rparr>)"
  using run_init_digits [of "''1234567890''"]
  by (simp del: run.simps add: isdigit_chars INPUT_BUFFER_MAX_LEN_def)

lemma run_eleven_digits_NL:
  "run init_state (''12345678901'' @ [NL]) =
     (Break, \<lparr>ret_val = 1, input_buffer = ''12345678901'', n_input_chars = 11, alerts = 0\<rparr>)"
  by (simp only: run_append run_eleven_digits)
     (simp add: loop_body_NL_nonempty)

lemma convert_eleven_digits:
  "convert_input
     \<lparr>ret_val = 1, input_buffer = ''12345678901'', n_input_chars = 11, alerts = 0\<rparr> =
   Inl OutOfBounds"
  by (simp add: convert_input_def)

section \<open>Conversion of the digits typed\<close>



lemma int32_below_ten_nines: "sint (w :: 32 word) \<noteq> decimal_value ''9999999999''"
proof -
  have "sint w < 2 ^ 31"
    using sint_lt [of w] by simp
  moreover have "decimal_value ''9999999999'' = 9999999999"
    by (simp add: digit_val_def)
  ultimately show ?thesis by simp
qed


section \<open>The keys that end or edit the input\<close>

text \<open>
  C5. Whenever ESCAPE is read, whatever the buffer holds, the loop breaks with
  \<open>ret_val = 0\<close> and the function returns 0 with 0 stored through \<open>input_ptr\<close>:
  never a value computed from the buffer. The state \<open>s\<close> is any state the loop can be
  in after the characters \<open>pre\<close>; \<open>rest\<close> is whatever is typed after the ESCAPE.
\<close>

theorem escape_cancels:
  assumes "run init_state pre = (Continue, s)"
  shows "loop_body ESC s = (Break, s\<lparr>ret_val := 0\<rparr>) \<and>
         run init_state (pre @ ESC # rest) = (Break, s\<lparr>ret_val := 0\<rparr>) \<and>
         map_option result (show_int_input_dialog t (pre @ ESC # rest)) = Some (Inr (0, 0))"
proof -
  have r: "run init_state (pre @ ESC # rest) = (Break, s\<lparr>ret_val := 0\<rparr>)"
    using assms by (rule run_snoc_ESC)
  then have "map_option result (show_int_input_dialog t (pre @ ESC # rest)) = Some (Inr (0, 0))"
    by (simp add: dialog_of_run_Break after_loop_def)
  with r show ?thesis
    by (simp add: loop_body_ESC)
qed

theorem escape_cancels_witness:
  "run init_state ''12'' =
     (Continue, \<lparr>ret_val = 1, input_buffer = ''12'' @ replicate 9 NUL, n_input_chars = 2, alerts = 0\<rparr>) \<and>
   map_option result (show_int_input_dialog tty (''12'' @ ESC # ''3'' @ [NL])) = Some (Inr (0, 0))"
proof -
  have h: "run init_state ''12'' =
     (Continue, \<lparr>ret_val = 1, input_buffer = ''12'' @ replicate 9 NUL, n_input_chars = 2, alerts = 0\<rparr>)"
    by code_simp
  from escape_cancels [OF h, of "''3'' @ [NL]" tty] h show ?thesis
    by simp
qed

text \<open>
  C6. RETURN read on an empty buffer leaves the loop running (the buffer still empty);
  RETURN read on a non-empty buffer breaks the loop with \<open>ret_val = 1\<close>, the confirmed
  exit, and the state as it was: the run ends there, whatever is typed afterwards.
\<close>

theorem return_key_transitions:
  assumes "run init_state pre = (Continue, s)"
  shows "(n_input_chars s = 0 \<longrightarrow>
            run init_state (pre @ [NL]) = (Continue, s\<lparr>alerts := alerts s + 2\<rparr>)) \<and>
         (n_input_chars s \<noteq> 0 \<longrightarrow>
            run init_state (pre @ NL # rest) = (Break, s) \<and> ret_val s = 1)"
proof -
  have "ret_val s = 1"
    using run_ret_val [OF assms] by (simp add: init_state_def)
  with assms show ?thesis
    by (simp add: run_append loop_body_NL_empty loop_body_NL_nonempty)
qed

theorem return_key_transitions_witness:
  "run init_state [] = (Continue, init_state) \<and> n_input_chars init_state = 0 \<and>
   run init_state ([] @ [NL]) = (Continue, init_state\<lparr>alerts := alerts init_state + 2\<rparr>) \<and>
   run init_state ''5'' =
     (Continue, \<lparr>ret_val = 1, input_buffer = ''5'' @ replicate 10 NUL, n_input_chars = 1, alerts = 0\<rparr>) \<and>
   run init_state (''5'' @ NL # ''67'') =
     (Break, \<lparr>ret_val = 1, input_buffer = ''5'' @ replicate 10 NUL, n_input_chars = 1, alerts = 0\<rparr>)"
proof -
  have h0: "run init_state [] = (Continue, init_state)"
    by simp
  have n0: "n_input_chars init_state = 0"
    by (simp add: init_state_def)
  have h1: "run init_state ''5'' =
     (Continue, \<lparr>ret_val = 1, input_buffer = ''5'' @ replicate 10 NUL, n_input_chars = 1, alerts = 0\<rparr>)"
    by code_simp
  from return_key_transitions [OF h0] return_key_transitions [OF h1, of "''67''"] h0 n0 h1
  show ?thesis by simp
qed

text \<open>
  C7. \<open>d\<close> read on an empty buffer changes nothing but the number of alerts, which
  grows by one; \<open>d\<close> read on a non-empty buffer takes exactly the last digit away and
  sounds no alert.
\<close>

theorem delete_key:
  assumes "run init_state pre = (Continue, s)"
  shows "(n_input_chars s = 0 \<longrightarrow>
            loop_body (CHR ''d'') s = (Continue, s\<lparr>alerts := alerts s + 1\<rparr>)) \<and>
         (n_input_chars s \<noteq> 0 \<longrightarrow>
            loop_body (CHR ''d'') s = (Continue, s\<lparr>n_input_chars := n_input_chars s - 1\<rparr>) \<and>
            buffer_digits (snd (loop_body (CHR ''d'') s)) = butlast (buffer_digits s))"
proof -
  have "buffer_ok (snd (run init_state pre))"
    using buffer_ok_init by (rule buffer_ok_run)
  with assms have "n_input_chars s \<le> length (input_buffer s)"
    by (simp add: buffer_ok_def)
  then have "take (n_input_chars s - 1) (input_buffer s) = butlast (buffer_digits s)"
    by (simp add: buffer_digits_def butlast_take)
  then show ?thesis
    by (simp add: loop_body_d_empty loop_body_d_nonempty buffer_digits_def)
qed

theorem delete_key_witness:
  "run init_state [] = (Continue, init_state) \<and>
   loop_body (CHR ''d'') init_state = (Continue, init_state\<lparr>alerts := alerts init_state + 1\<rparr>) \<and>
   run init_state ''12'' =
     (Continue, \<lparr>ret_val = 1, input_buffer = ''12'' @ replicate 9 NUL, n_input_chars = 2, alerts = 0\<rparr>) \<and>
   buffer_digits (snd (loop_body (CHR ''d'')
     \<lparr>ret_val = 1, input_buffer = ''12'' @ replicate 9 NUL, n_input_chars = 2, alerts = 0\<rparr>)) = ''1''"
proof -
  have h0: "run init_state [] = (Continue, init_state)"
    by simp
  have n0: "n_input_chars init_state = 0"
    by (simp add: init_state_def)
  have h1: "run init_state ''12'' =
     (Continue, \<lparr>ret_val = 1, input_buffer = ''12'' @ replicate 9 NUL, n_input_chars = 2, alerts = 0\<rparr>)"
    by code_simp
  have b: "butlast (buffer_digits
     \<lparr>ret_val = 1, input_buffer = ''12'' @ replicate 9 NUL, n_input_chars = 2, alerts = 0\<rparr>) = ''1''"
    by (simp add: buffer_digits_def)
  from delete_key [OF h0] delete_key [OF h1] h0 n0 h1 b
  show ?thesis by (simp add: buffer_digits_def)
qed

text \<open>
  C10. RETURN read on an empty buffer sounds the alert twice in that one iteration: once
  in the RETURN block, and once more in the block for characters that are neither digits
  nor \<open>d\<close>, which the same character then reaches. The loop goes on with the buffer
  unchanged.
\<close>

theorem empty_return_alerts_twice:
  assumes "n_input_chars s = 0"
  shows "return_key NL s = (Continue, make_alert_sound s) \<and>
         edit_key NL (make_alert_sound s) = make_alert_sound (make_alert_sound s) \<and>
         loop_body NL s = (Continue, s\<lparr>alerts := alerts s + 2\<rparr>)"
  using assms by (simp add: key_defs specials_distinct)

theorem empty_return_alerts_twice_witness:
  "n_input_chars init_state = 0 \<and>
   loop_body NL init_state =
     (Continue, \<lparr>ret_val = 1, input_buffer = replicate 11 NUL, n_input_chars = 0, alerts = 2\<rparr>)"
proof -
  have n0: "n_input_chars init_state = 0"
    by (simp add: init_state_def)
  from empty_return_alerts_twice [OF n0] n0 show ?thesis
    by (simp add: init_state_def INPUT_BUFFER_MAX_LEN_def)
qed

section \<open>Rejected input\<close>

text \<open>
  The rejections the code does make. Each of them sounds an alert, does not end the loop
  and leaves the buffer and its length as they were: a character that is no digit, no
  \<open>d\<close>, no ESCAPE and no RETURN; \<open>d\<close> on an empty buffer; RETURN on an empty buffer; a
  digit when the guard of the code, \<open>n_input_chars < INPUT_BUFFER_MAX_LEN\<close>, fails, which
  is at eleven digits and not at ten. Conversely an iteration that sounds the alert goes
  on with buffer and length unchanged. Typing \<open>a1b2\<close> and RETURN returns 1 with the
  value 12, after two alerts.
\<close>

lemma rejected_input_alerts:
  "(\<not> isdigit c \<and> c \<noteq> CHR ''d'' \<and> c \<noteq> ESC \<and> c \<noteq> NL \<longrightarrow>
      loop_body c s = (Continue, s\<lparr>alerts := alerts s + 1\<rparr>)) \<and>
   (n_input_chars s = 0 \<longrightarrow>
      loop_body (CHR ''d'') s = (Continue, s\<lparr>alerts := alerts s + 1\<rparr>)) \<and>
   (n_input_chars s = 0 \<longrightarrow>
      loop_body NL s = (Continue, s\<lparr>alerts := alerts s + 2\<rparr>)) \<and>
   (isdigit c \<and> \<not> n_input_chars s < INPUT_BUFFER_MAX_LEN \<longrightarrow>
      loop_body c s = (Continue, s\<lparr>alerts := alerts s + 1\<rparr>)) \<and>
   (alerts (snd (loop_body c s)) \<noteq> alerts s \<longrightarrow>
      fst (loop_body c s) = Continue \<and>
      input_buffer (snd (loop_body c s)) = input_buffer s \<and>
      n_input_chars (snd (loop_body c s)) = n_input_chars s) \<and>
   map_option (\<lambda>e. (result e, bells e)) (show_int_input_dialog t (''a1b2'' @ [NL])) =
     Some (Inr (1, 12), 2)"
proof -
  have r: "run init_state (''a1b2'' @ [NL]) =
     (Break, \<lparr>ret_val = 1, input_buffer = ''12'' @ replicate 9 NUL, n_input_chars = 2, alerts = 2\<rparr>)"
    by code_simp
  have v: "convert_input
     \<lparr>ret_val = 1, input_buffer = ''12'' @ replicate 9 NUL, n_input_chars = 2, alerts = 2\<rparr> = Inr 12"
    by code_simp
  have "map_option (\<lambda>e. (result e, bells e)) (show_int_input_dialog t (''a1b2'' @ [NL])) =
     Some (Inr (1, 12), 2)"
    unfolding dialog_of_run_Break [OF r]
    using after_loop_confirmed [OF _ v] by simp
  then show ?thesis
    using loop_body_alert_only_when_unchanged [of c s]
    by (simp add: loop_body_other loop_body_d_empty loop_body_NL_empty loop_body_digit)
qed

lemma rejected_input_alerts_at_inputs:
  "\<not> isdigit (CHR ''a'') \<and>
   alerts (snd (loop_body (CHR ''a'') init_state)) \<noteq> alerts init_state \<and>
   loop_body (CHR ''a'') init_state = (Continue, init_state\<lparr>alerts := 1\<rparr>) \<and>
   loop_body (CHR ''d'') init_state = (Continue, init_state\<lparr>alerts := 1\<rparr>) \<and>
   loop_body NL init_state = (Continue, init_state\<lparr>alerts := 2\<rparr>) \<and>
   run init_state ''12345678901'' =
     (Continue, \<lparr>ret_val = 1, input_buffer = ''12345678901'', n_input_chars = 11, alerts = 0\<rparr>) \<and>
   loop_body (CHR ''2'')
     \<lparr>ret_val = 1, input_buffer = ''12345678901'', n_input_chars = 11, alerts = 0\<rparr> =
     (Continue, \<lparr>ret_val = 1, input_buffer = ''12345678901'', n_input_chars = 11, alerts = 1\<rparr>)"
proof -
  let ?full = "\<lparr>ret_val = 1, input_buffer = ''12345678901'', n_input_chars = 11, alerts = 0\<rparr>"
  have a: "\<not> isdigit (CHR ''a'') \<and> CHR ''a'' \<noteq> CHR ''d'' \<and> CHR ''a'' \<noteq> ESC \<and> CHR ''a'' \<noteq> NL"
    by (simp add: isdigit_def ESC_def NL_def)
  have n0: "n_input_chars init_state = 0" and a0: "alerts init_state = 0"
    by (simp_all add: init_state_def)
  have full: "isdigit (CHR ''2'') \<and> \<not> n_input_chars ?full < INPUT_BUFFER_MAX_LEN"
    by (simp add: isdigit_chars INPUT_BUFFER_MAX_LEN_def)
  from rejected_input_alerts [of "CHR ''a''" init_state] rejected_input_alerts [of "CHR ''2''" ?full]
    a n0 a0 full run_eleven_digits
  show ?thesis by (simp del: run.simps)
qed

section \<open>The terminal attributes\<close>

text \<open>
  C9. Whenever the function comes back, by the confirmed or by the cancelled exit, the
  terminal has the attributes it had at entry, and \<open>tcsetattr\<close> was called exactly
  twice: once with the raw-mode attributes at entry, once with the attributes captured at
  entry, after the loop. The restoring call stands before the conversion of the buffer,
  so it is made on the exit that faults as well.
\<close>

theorem terminal_restored_once:
  assumes "show_int_input_dialog t typed = Some e"
  shows "attrs (term_after e) = attrs t \<and>
         set_calls (term_after e) =
           set_calls t @
           [(attrs t)\<lparr>c_lflag := c_lflag (attrs t) AND NEW_TERM_ATTRIBS_MASK\<rparr>, attrs t]"
proof (cases "run init_state typed")
  case (Pair k s)
  show ?thesis
  proof (cases k)
    case Continue
    with Pair assms show ?thesis
      by (simp add: dialog_of_run_Continue)
  next
    case Break
    with Pair assms have "e = after_loop (tcgetattr t)
       (tcsetattr ((tcgetattr t)\<lparr>c_lflag := c_lflag (tcgetattr t) AND NEW_TERM_ATTRIBS_MASK\<rparr>) t) s"
      by (simp add: dialog_of_run_Break)
    then show ?thesis
      by (simp add: after_loop_def tcgetattr_def tcsetattr_def Let_def split: sum.splits)
  qed
qed

theorem terminal_restored_once_witness:
  "show_int_input_dialog tty (''7'' @ [NL]) =
     Some \<lparr>result = Inr (1, 7),
           term_after = \<lparr>attrs = attrs tty, set_calls = [(attrs tty)\<lparr>c_lflag := 0x8A30\<rparr>, attrs tty]\<rparr>,
           bells = 0\<rparr> \<and>
   show_int_input_dialog tty (''7'' @ [ESC]) =
     Some \<lparr>result = Inr (0, 0),
           term_after = \<lparr>attrs = attrs tty, set_calls = [(attrs tty)\<lparr>c_lflag := 0x8A30\<rparr>, attrs tty]\<rparr>,
           bells = 0\<rparr> \<and>
   set_calls tty = [] \<and>
   (attrs tty)\<lparr>c_lflag := c_lflag (attrs tty) AND NEW_TERM_ATTRIBS_MASK\<rparr> =
     (attrs tty)\<lparr>c_lflag := 0x8A30\<rparr>"
proof -
  have h1: "show_int_input_dialog tty (''7'' @ [NL]) =
     Some \<lparr>result = Inr (1, 7),
           term_after = \<lparr>attrs = attrs tty, set_calls = [(attrs tty)\<lparr>c_lflag := 0x8A30\<rparr>, attrs tty]\<rparr>,
           bells = 0\<rparr>"
    by code_simp
  have h2: "show_int_input_dialog tty (''7'' @ [ESC]) =
     Some \<lparr>result = Inr (0, 0),
           term_after = \<lparr>attrs = attrs tty, set_calls = [(attrs tty)\<lparr>c_lflag := 0x8A30\<rparr>, attrs tty]\<rparr>,
           bells = 0\<rparr>"
    by code_simp
  from terminal_restored_once [OF h1] terminal_restored_once [OF h2] h1 h2
  show ?thesis by (simp add: tty_def)
qed

section \<open>The eleventh digit\<close>

text \<open>
  C1 fails on the code. With ten digits in the buffer the guard
  \<open>n_input_chars < INPUT_BUFFER_MAX_LEN\<close> still holds, so an eleventh digit is stored in
  the last byte of the array, the count becomes 11 and no alert sounds.
\<close>

theorem eleventh_digit_is_stored:
  "run init_state ''1234567890'' =
     (Continue,
      \<lparr>ret_val = 1, input_buffer = ''1234567890'' @ [NUL], n_input_chars = 10, alerts = 0\<rparr>) \<and>
   loop_body (CHR ''1'')
      \<lparr>ret_val = 1, input_buffer = ''1234567890'' @ [NUL], n_input_chars = 10, alerts = 0\<rparr> =
     (Continue,
      \<lparr>ret_val = 1, input_buffer = ''12345678901'', n_input_chars = 11, alerts = 0\<rparr>)"
proof (rule conjI)
  show "run init_state ''1234567890'' =
     (Continue,
      \<lparr>ret_val = 1, input_buffer = ''1234567890'' @ [NUL], n_input_chars = 10, alerts = 0\<rparr>)"
    by (rule run_ten_digits)
  show "loop_body (CHR ''1'')
      \<lparr>ret_val = 1, input_buffer = ''1234567890'' @ [NUL], n_input_chars = 10, alerts = 0\<rparr> =
     (Continue,
      \<lparr>ret_val = 1, input_buffer = ''12345678901'', n_input_chars = 11, alerts = 0\<rparr>)"
    by (simp add: loop_body_digit isdigit_chars INPUT_BUFFER_MAX_LEN_def)
qed

text \<open>
  C2 fails on the code. After eleven digits and RETURN the buffer holds all eleven
  digits, no alert has sounded, and the store of the terminator falls outside the array
  instead of the function returning the value of the first ten digits.
\<close>

theorem eleven_digits_then_return:
  "run init_state (''12345678901'' @ [NL]) =
     (Break, \<lparr>ret_val = 1, input_buffer = ''12345678901'', n_input_chars = 11, alerts = 0\<rparr>) \<and>
   map_option (\<lambda>e. (result e, bells e)) (show_int_input_dialog t (''12345678901'' @ [NL])) =
     Some (Inl OutOfBounds, 0)"
proof -
  have "map_option (\<lambda>e. (result e, bells e)) (show_int_input_dialog t (''12345678901'' @ [NL])) =
     Some (Inl OutOfBounds, 0)"
    unfolding dialog_of_run_Break [OF run_eleven_digits_NL]
    using after_loop_fault [OF _ convert_eleven_digits] by simp
  with run_eleven_digits_NL show ?thesis by (rule conjI)
qed

text \<open>
  C3 fails on the code. The confirmed exit is reached with \<open>n_input_chars = 11\<close>, which
  is not below \<open>INPUT_BUFFER_MAX_LEN\<close>: \<open>input_buffer[n_input_chars] = 0\<close> then writes
  one byte past the 11-byte array.
\<close>

theorem terminator_store_outside_array:
  "fst (run init_state (''12345678901'' @ [NL])) = Break \<and>
   ret_val (snd (run init_state (''12345678901'' @ [NL]))) = 1 \<and>
   n_input_chars (snd (run init_state (''12345678901'' @ [NL]))) = 11 \<and>
   length (input_buffer (snd (run init_state (''12345678901'' @ [NL])))) = INPUT_BUFFER_MAX_LEN \<and>
   \<not> n_input_chars (snd (run init_state (''12345678901'' @ [NL]))) < INPUT_BUFFER_MAX_LEN \<and>
   convert_input (snd (run init_state (''12345678901'' @ [NL]))) = Inl OutOfBounds"
  unfolding run_eleven_digits_NL
  by (simp add: convert_eleven_digits INPUT_BUFFER_MAX_LEN_def)

text \<open>
  C8 fails on the code. A digit past the capacity of ten digits is a rejected input event
  of the claim, but the code does not reject it: read with ten digits in the buffer, the
  digit sounds no alert, is stored in the array and raises the length to 11. The loop goes
  on; the other three kinds of rejected input behave as the claim says.
\<close>

theorem digit_past_ten_not_rejected:
  "n_input_chars (snd (run init_state ''1234567890'')) = 10 \<and>
   isdigit (CHR ''1'') \<and>
   fst (loop_body (CHR ''1'') (snd (run init_state ''1234567890''))) = Continue \<and>
   alerts (snd (loop_body (CHR ''1'') (snd (run init_state ''1234567890'')))) =
     alerts (snd (run init_state ''1234567890'')) \<and>
   n_input_chars (snd (loop_body (CHR ''1'') (snd (run init_state ''1234567890'')))) = 11 \<and>
   input_buffer (snd (loop_body (CHR ''1'') (snd (run init_state ''1234567890'')))) \<noteq>
     input_buffer (snd (run init_state ''1234567890''))"
  unfolding run_ten_digits
  by (simp add: loop_body_digit isdigit_chars INPUT_BUFFER_MAX_LEN_def NUL_def)

end
